theory Spec2Isabelle
  imports Main
begin

section \<open>Data model of singleflight.go\<close>

text \<open>
  Go's \<open>error\<close> values. \<open>ctx.Err()\<close> yields \<open>Canceled\<close> or \<open>DeadlineExceeded\<close>;
  \<open>Failure\<close> stands for any error value returned by the user function.
\<close>

datatype error = Canceled | DeadlineExceeded | Failure string

text \<open>
  \<open>type panicError struct { value any; stack []byte }\<close>. The field \<open>value\<close> is spelled
  \<open>panic_value\<close> here. The code passes one pointer to every \<open>panic\<close>; the model compares
  the pointed-to contents.
\<close>

record panicError =
  panic_value :: string
  panic_stack :: string

text \<open>
  \<open>type call[V any] struct\<close>. The field \<open>done\<close> is a channel reference: \<open>None\<close> is the nil
  channel, \<open>Some d\<close> is the channel at address \<open>d\<close> of the channel store. \<open>dups\<close> is a Go
  \<open>int\<close>; it only ever counts up by one per joining caller, so it is an unbounded integer here.
  The zero value of \<open>V\<close> is \<open>0\<close>.
\<close>

record 'v call =
  val :: 'v
  err :: "error option"
  panicErr :: "panicError option"
  done_chan :: "nat option"
  dups :: int
  forgotten :: bool

text \<open>\<open>new(call[V])\<close>: every field has its zero value.\<close>

definition new_call :: "'v::zero call" where
  "new_call = \<lparr>val = 0, err = None, panicErr = None, done_chan = None, dups = 0,
     forgotten = False\<rparr>"

text \<open>
  What the user function \<open>fn(ctx)\<close> does when it ends: it returns a value and an error, or it
  panics; for a panic the second component is what \<open>debug.Stack()\<close> yields inside the
  deferred handler of \<open>doCall\<close>.
\<close>

datatype 'v outcome = Return 'v "error option" | Panic string string

text \<open>
  The control point of one call of \<open>Do\<close>. Every section of \<open>Do\<close> that runs under \<open>g.mu\<close> is
  one atomic step; the code between such sections is split wherever another goroutine can
  interleave observably.
  \<^item> \<open>Idle\<close>: the call has not started;
  \<^item> \<open>Running c key\<close>: leader, after line 96, inside \<open>fn\<close>, with record \<open>c\<close>;
  \<^item> \<open>Finished c\<close>: leader, \<open>doCall\<close> has returned (line 99 done);
  \<^item> \<open>Returning c v e\<close>: leader, after line 120, before line 122, with the locals \<open>val\<close> and \<open>err\<close>;
  \<^item> \<open>Waiting c d\<close>: follower blocked in the \<open>select\<close> of line 70, holding \<open>c\<close> and
    its local \<open>done\<close>;
  \<^item> \<open>Returned v shared e\<close>: \<open>Do\<close> has returned \<open>(v, shared, e)\<close>;
  \<^item> \<open>Panicked p\<close>: \<open>Do\<close> has panicked with \<open>p\<close>.
\<close>

datatype ('k, 'v) pc =
    Idle
  | Running nat 'k
  | Finished nat
  | Returning nat 'v "error option"
  | Waiting nat nat
  | Returned 'v bool "error option"
  | Panicked panicError

text \<open>Bookkeeping only: which part a call played.\<close>

datatype role = Leader | Follower nat

text \<open>
  The group and everything it reaches.
  \<^item> \<open>calls\<close>: \<open>g.calls\<close>, a Go map from keys to record addresses; \<open>None\<close> is the nil map;
  \<^item> \<open>pool_New\<close>: whether \<open>g.pool.New\<close> is set; \<open>pool_items\<close>: the records \<open>g.pool\<close> holds;
  \<^item> \<open>heap\<close>, \<open>heap_next\<close>: the store of \<open>call\<close> records and the next unused address;
  \<^item> \<open>chans\<close>, \<open>chan_next\<close>: the store of channels (\<open>True\<close> is closed) and the next
    unused address;
  \<^item> \<open>pcs\<close>: the control point of every call of \<open>Do\<close>, by call identifier.
  The remaining fields are history variables. No step reads them to decide what the
  program does: \<open>role\<close> tells whether a call ran \<open>fn\<close> itself (\<open>Leader\<close>) or joined the
  call of another (\<open>Follower l\<close>), \<open>rec_of\<close> is the record a call used, \<open>owner\<close> the
  latest leader of a record, \<open>outcome\<close> how the \<open>fn\<close> of a leader ended.
  \<open>g.mu\<close> has no field: a locked section is one step.
\<close>

record ('k, 'v) world =
  calls :: "('k \<rightharpoonup> nat) option"
  pool_New :: bool
  pool_items :: "nat list"
  heap :: "nat \<Rightarrow> 'v call"
  heap_next :: nat
  chans :: "nat \<Rightarrow> bool"
  chan_next :: nat
  pcs :: "nat \<Rightarrow> ('k, 'v) pc"
  role :: "nat \<Rightarrow> role option"
  rec_of :: "nat \<Rightarrow> nat option"
  owner :: "nat \<Rightarrow> nat"
  outcome :: "nat \<Rightarrow> 'v outcome option"

definition boot :: "('k \<rightharpoonup> nat) option \<Rightarrow> bool \<Rightarrow> ('k, 'v::zero) world" where
  "boot m n = \<lparr>calls = m, pool_New = n, pool_items = [], heap = (\<lambda>_. new_call),
     heap_next = 0, chans = (\<lambda>_. False), chan_next = 0, pcs = (\<lambda>_. Idle),
     role = (\<lambda>_. None), rec_of = (\<lambda>_. None), owner = (\<lambda>_. 0), outcome = (\<lambda>_. None)\<rparr>"

text \<open>\<open>NewGroup()\<close>: an empty map and a pool whose \<open>New\<close> allocates a record.\<close>

definition NewGroup :: "('k, 'v::zero) world" where
  "NewGroup = boot (Some Map.empty) True"

text \<open>\<open>var g Group[K, V]\<close>: the nil map and a pool without \<open>New\<close>.\<close>

definition zero_Group :: "('k, 'v::zero) world" where
  "zero_Group = boot None False"

section \<open>Go maps, allocation and the pool\<close>

datatype failure = NotEnabled | NilMapAssign | CloseOfClosedChan

text \<open>\<open>c, ok := m[key]\<close>: reading the nil map finds nothing.\<close>

definition map_index :: "('k \<rightharpoonup> nat) option \<Rightarrow> 'k \<Rightarrow> nat option" where
  "map_index m key = (case m of None \<Rightarrow> None | Some f \<Rightarrow> f key)"

text \<open>\<open>delete(m, key)\<close>: on the nil map it does nothing.\<close>

definition map_delete :: "('k \<rightharpoonup> nat) option \<Rightarrow> 'k \<Rightarrow> ('k \<rightharpoonup> nat) option" where
  "map_delete m key = (case m of None \<Rightarrow> None | Some f \<Rightarrow> Some (f(key := None)))"

text \<open>\<open>m[key] = c\<close>: assigning into the nil map panics.\<close>

definition map_assign ::
  "('k \<rightharpoonup> nat) option \<Rightarrow> 'k \<Rightarrow> nat \<Rightarrow> failure + ('k \<rightharpoonup> nat) option" where
  "map_assign m key c = (case m of None \<Rightarrow> Inl NilMapAssign | Some f \<Rightarrow> Inr (Some (f(key \<mapsto> c))))"

definition alloc :: "('k, 'v::zero) world \<Rightarrow> nat \<times> ('k, 'v) world" where
  "alloc s = (heap_next s,
     s\<lparr>heap := (heap s)(heap_next s := new_call), heap_next := Suc (heap_next s)\<rparr>)"

text \<open>
  \<open>g.pool.Get()\<close>. A \<open>sync.Pool\<close> may hand out any of its items and may also behave as if
  it were empty, so the caller of the model says which: \<open>Some i\<close> takes item \<open>i\<close>, anything
  else is a miss. On a miss the pool calls \<open>New\<close> when it is set and yields nil otherwise.
\<close>

definition pool_miss :: "('k, 'v::zero) world \<Rightarrow> nat option \<times> ('k, 'v) world" where
  "pool_miss s = (if pool_New s then (case alloc s of (c, s') \<Rightarrow> (Some c, s')) else (None, s))"

definition pool_Get :: "nat option \<Rightarrow> ('k, 'v::zero) world \<Rightarrow> nat option \<times> ('k, 'v) world" where
  "pool_Get pick s =
     (case pick of
        None \<Rightarrow> pool_miss s
      | Some i \<Rightarrow>
          if i < length (pool_items s)
          then (Some (pool_items s ! i),
                s\<lparr>pool_items := take i (pool_items s) @ drop (Suc i) (pool_items s)\<rparr>)
          else pool_miss s)"

definition pool_Put :: "nat \<Rightarrow> ('k, 'v) world \<Rightarrow> ('k, 'v) world" where
  "pool_Put c s = s\<lparr>pool_items := c # pool_items s\<rparr>"

section \<open>The steps of Do, doCall and Forget\<close>

text \<open>Lines 62 to 68: the caller found \<open>c\<close> under its key and joins it.\<close>

definition Do_follower :: "nat \<Rightarrow> nat \<Rightarrow> ('k, 'v) world \<Rightarrow> failure + ('k, 'v) world" where
  "Do_follower t c s =
     (let r = (heap s c)\<lparr>dups := dups (heap s c) + 1\<rparr> in
      case done_chan r of
        None \<Rightarrow>
          Inr (s\<lparr>heap := (heap s)(c := r\<lparr>done_chan := Some (chan_next s)\<rparr>),
                 chans := (chans s)(chan_next s := False),
                 chan_next := Suc (chan_next s),
                 pcs := (pcs s)(t := Waiting c (chan_next s)),
                 role := (role s)(t := Some (Follower (owner s c))),
                 rec_of := (rec_of s)(t := Some c)\<rparr>)
      | Some d \<Rightarrow>
          Inr (s\<lparr>heap := (heap s)(c := r),
                 pcs := (pcs s)(t := Waiting c d),
                 role := (role s)(t := Some (Follower (owner s c))),
                 rec_of := (rec_of s)(t := Some c)\<rparr>))"

text \<open>Lines 82 to 96: the caller found nothing under its key and becomes the leader.\<close>

definition Do_leader ::
  "nat \<Rightarrow> 'k \<Rightarrow> nat option \<Rightarrow> ('k, 'v::zero) world \<Rightarrow> failure + ('k, 'v) world" where
  "Do_leader t key pick s =
     (case pool_Get pick s of (got, s1) \<Rightarrow>
      case (case got of Some c \<Rightarrow> (c, s1) | None \<Rightarrow> alloc s1) of (c, s2) \<Rightarrow>
      case map_assign (calls s2) key c of
        Inl f \<Rightarrow> Inl f
      | Inr m \<Rightarrow>
          Inr (s2\<lparr>heap := (heap s2)(c := (heap s2 c)\<lparr>dups := 0, forgotten := False,
                                                      panicErr := None\<rparr>),
                  calls := m,
                  pcs := (pcs s2)(t := Running c key),
                  role := (role s2)(t := Some Leader),
                  rec_of := (rec_of s2)(t := Some c),
                  owner := (owner s2)(c := t)\<rparr>))"

text \<open>Lines 55 to 96, up to the \<open>select\<close> or the call of \<open>doCall\<close>.\<close>

definition Do_enter ::
  "nat \<Rightarrow> 'k \<Rightarrow> nat option \<Rightarrow> ('k, 'v::zero) world \<Rightarrow> failure + ('k, 'v) world" where
  "Do_enter t key pick s =
     (if pcs s t \<noteq> Idle then Inl NotEnabled
      else
        let s0 = (if calls s = None then s\<lparr>calls := Some Map.empty\<rparr> else s) in
        case map_index (calls s0) key of
          Some c \<Rightarrow> Do_follower t c s0
        | None \<Rightarrow> Do_leader t key pick s0)"

text \<open>
  \<open>doCall\<close> from the moment \<open>fn\<close> ends: line 142 or the \<open>recover\<close> of lines 128 to 130, then
  the locked section of lines 132 to 139. Closing a closed channel panics in Go.
\<close>

definition doCall :: "nat \<Rightarrow> 'v outcome \<Rightarrow> ('k, 'v) world \<Rightarrow> failure + ('k, 'v) world" where
  "doCall t out s =
     (case pcs s t of
        Running c key \<Rightarrow>
          let r = (case out of
                     Return v e \<Rightarrow> (heap s c)\<lparr>val := v, err := e\<rparr>
                   | Panic pv st \<Rightarrow>
                       (heap s c)\<lparr>panicErr := Some \<lparr>panic_value = pv, panic_stack = st\<rparr>\<rparr>)
          in
          if (case done_chan r of None \<Rightarrow> False | Some d \<Rightarrow> chans s d)
          then Inl CloseOfClosedChan
          else
            Inr (s\<lparr>heap := (heap s)(c := r),
                   chans := (case done_chan r of None \<Rightarrow> chans s
                             | Some d \<Rightarrow> (chans s)(d := True)),
                   calls := (if forgotten r then calls s else map_delete (calls s) key),
                   pcs := (pcs s)(t := Finished c),
                   outcome := (outcome s)(t := Some out)\<rparr>)
      | _ \<Rightarrow> Inl NotEnabled)"

text \<open>
  Lines 102 to 120. \<open>panicked\<close> is \<open>c.panicErr != nil\<close>: when it holds the record is not
  recycled and line 119 panics with \<open>c.panicErr\<close>; otherwise lines 110 to 116 decide about
  the pool and the call goes on to line 122 with its locals \<open>val\<close> and \<open>err\<close>.
\<close>

definition Do_recycle :: "nat \<Rightarrow> ('k, 'v::zero) world \<Rightarrow> failure + ('k, 'v) world" where
  "Do_recycle t s =
     (case pcs s t of
        Finished c \<Rightarrow>
          (case panicErr (heap s c) of
             Some p \<Rightarrow> Inr (s\<lparr>pcs := (pcs s)(t := Panicked p)\<rparr>)
           | None \<Rightarrow>
               let v = val (heap s c); e = err (heap s c);
                   s1 = (if dups (heap s c) = 0 \<and> done_chan (heap s c) = None
                         then pool_Put c (s\<lparr>heap := (heap s)(c := (heap s c)\<lparr>val := 0,
                                                                          err := None\<rparr>)\<rparr>)
                         else s)
               in Inr (s1\<lparr>pcs := (pcs s1)(t := Returning c v e)\<rparr>))
      | _ \<Rightarrow> Inl NotEnabled)"

text \<open>Line 122: \<open>return val, c.dups > 0, err\<close>.\<close>

definition Do_return :: "nat \<Rightarrow> ('k, 'v) world \<Rightarrow> failure + ('k, 'v) world" where
  "Do_return t s =
     (case pcs s t of
        Returning c v e \<Rightarrow> Inr (s\<lparr>pcs := (pcs s)(t := Returned v (dups (heap s c) > 0) e)\<rparr>)
      | _ \<Rightarrow> Inl NotEnabled)"

text \<open>Lines 71 to 75: the follower receives from \<open>done\<close>, which needs the channel closed.\<close>

definition Do_select_done :: "nat \<Rightarrow> ('k, 'v) world \<Rightarrow> failure + ('k, 'v) world" where
  "Do_select_done t s =
     (case pcs s t of
        Waiting c d \<Rightarrow>
          if chans s d
          then (case panicErr (heap s c) of
                  Some p \<Rightarrow> Inr (s\<lparr>pcs := (pcs s)(t := Panicked p)\<rparr>)
                | None \<Rightarrow>
                    Inr (s\<lparr>pcs := (pcs s)(t := Returned (val (heap s c)) True
                                                  (err (heap s c)))\<rparr>))
          else Inl NotEnabled
      | _ \<Rightarrow> Inl NotEnabled)"

text \<open>
  Lines 76 and 77: the follower's own \<open>ctx.Done()\<close> fires, and \<open>ctx.Err()\<close> is \<open>e\<close>.
\<close>

definition Do_select_ctx :: "nat \<Rightarrow> error \<Rightarrow> ('k, 'v::zero) world \<Rightarrow> failure + ('k, 'v) world" where
  "Do_select_ctx t e s =
     (case pcs s t of
        Waiting c d \<Rightarrow> Inr (s\<lparr>pcs := (pcs s)(t := Returned 0 True (Some e))\<rparr>)
      | _ \<Rightarrow> Inl NotEnabled)"

text \<open>Lines 146 to 153.\<close>

definition Forget :: "'k \<Rightarrow> ('k, 'v) world \<Rightarrow> ('k, 'v) world" where
  "Forget key s =
     (let s1 = (case map_index (calls s) key of
                  Some c \<Rightarrow> s\<lparr>heap := (heap s)(c := (heap s c)\<lparr>forgotten := True\<rparr>)\<rparr>
                | None \<Rightarrow> s)
      in s1\<lparr>calls := map_delete (calls s1) key\<rparr>)"

section \<open>Schedules\<close>

text \<open>
  What can happen next: call \<open>t\<close> enters \<open>Do\<close> with a key (and the pool answers as told),
  the \<open>fn\<close> of leader \<open>t\<close> ends, leader \<open>t\<close> runs lines 102 to 120, leader \<open>t\<close> returns,
  follower \<open>t\<close> sees \<open>done\<close> closed, the token of follower \<open>t\<close> fires, or somebody calls
  \<open>Forget\<close>.
\<close>

datatype ('k, 'v) event =
    Enter nat 'k "nat option"
  | Fn_ends nat "'v outcome"
  | Recycle nat
  | Leader_returns nat
  | Done_closed nat
  | Ctx_done nat error
  | Forgets 'k

fun step :: "('k, 'v::zero) event \<Rightarrow> ('k, 'v) world \<Rightarrow> failure + ('k, 'v) world" where
  "step (Enter t key pick) s = Do_enter t key pick s"
| "step (Fn_ends t out) s = doCall t out s"
| "step (Recycle t) s = Do_recycle t s"
| "step (Leader_returns t) s = Do_return t s"
| "step (Done_closed t) s = Do_select_done t s"
| "step (Ctx_done t e) s = Do_select_ctx t e s"
| "step (Forgets key) s = Inr (Forget key s)"

fun run :: "('k, 'v::zero) event list \<Rightarrow> ('k, 'v) world \<Rightarrow> failure + ('k, 'v) world" where
  "run [] s = Inr s"
| "run (e # es) s = (case step e s of Inl f \<Rightarrow> Inl f | Inr s' \<Rightarrow> run es s')"

section \<open>Properties\<close>

lemmas model_defs = NewGroup_def zero_Group_def boot_def Do_enter_def Do_leader_def
  Do_follower_def doCall_def Do_recycle_def Do_return_def Do_select_done_def Do_select_ctx_def
  Forget_def pool_Get_def pool_miss_def pool_Put_def alloc_def map_index_def map_delete_def
  map_assign_def new_call_def Let_def

subsection \<open>Forget\<close>

text \<open>
  C9. \<open>Forget(key)\<close> always succeeds. When a record is mapped at \<open>key\<close> it marks that
  record as forgotten and removes the entry at once, whatever the leader of the record is
  doing (no control point is read or changed), and leaves every other key as it was. When
  nothing is mapped at \<open>key\<close>, on the nil map as well, the whole state is unchanged.
\<close>

theorem Forget_marks_and_removes:
  "step (Forgets key) s = Inr (Forget key s) \<and>
   (map_index (calls s) key = Some c \<longrightarrow>
      Forget key s = s\<lparr>heap := (heap s)(c := (heap s c)\<lparr>forgotten := True\<rparr>),
                       calls := map_delete (calls s) key\<rparr> \<and>
      forgotten (heap (Forget key s) c) \<and>
      map_index (calls (Forget key s)) key = None \<and>
      (\<forall>k. k \<noteq> key \<longrightarrow> map_index (calls (Forget key s)) k = map_index (calls s) k)) \<and>
   (map_index (calls s) key = None \<longrightarrow> Forget key s = s)"
proof -
  have idem: "\<And>f. calls s = Some f \<Longrightarrow> f key = None \<Longrightarrow> s\<lparr>calls := Some (f(key := None))\<rparr> = s"
    by (simp add: fun_upd_idem)
  show ?thesis
    by (auto simp: Forget_def map_index_def map_delete_def idem split: option.splits)
qed

theorem Forget_marks_and_removes_witness:
  "(case run [Enter 1 ''k'' None] (NewGroup :: (string, nat) world) of
      Inl f \<Rightarrow> False
    | Inr s \<Rightarrow> map_index (calls s) ''k'' = Some 0 \<and> pcs s 1 = Running 0 ''k'' \<and>
        forgotten (heap (Forget ''k'' s) 0) \<and> map_index (calls (Forget ''k'' s)) ''k'' = None \<and>
        pcs (Forget ''k'' s) 1 = Running 0 ''k'') \<and>
   map_index (calls (NewGroup :: (string, nat) world)) ''k'' = None \<and>
   Forget ''k'' (NewGroup :: (string, nat) world) = NewGroup"
  using Forget_marks_and_removes
      [of "''k''" "projr (run [Enter 1 ''k'' None] (NewGroup :: (string, nat) world))" 0]
    Forget_marks_and_removes [of "''k''" "NewGroup :: (string, nat) world" 0]
  by (simp add: model_defs)

subsection \<open>The zero-value Group\<close>

text \<open>
  C10. A \<open>Group\<close> declared without \<open>NewGroup\<close> has the nil map and a pool without \<open>New\<close>.
  Whatever the call, the key and the answer of the pool, \<open>Do\<close> on it does not fault: it
  makes the map, allocates a record at the first address, maps the key to it and goes on
  as the leader. \<open>Forget\<close> on it succeeds and changes nothing.
\<close>

theorem zero_Group_usable:
  "calls (zero_Group :: ('k, 'v::zero) world) = None \<and>
   \<not> pool_New (zero_Group :: ('k, 'v::zero) world) \<and>
   step (Enter t key pick) (zero_Group :: ('k, 'v::zero) world) =
     Inr (zero_Group\<lparr>calls := Some [key \<mapsto> 0], heap_next := 1,
            pcs := (\<lambda>_. Idle)(t := Running 0 key), role := (\<lambda>_. None)(t := Some Leader),
            rec_of := (\<lambda>_. None)(t := Some 0), owner := (\<lambda>_. 0)(0 := t)\<rparr>) \<and>
   step (Forgets key) (zero_Group :: ('k, 'v::zero) world) = Inr zero_Group"
  by (cases pick) (simp_all add: model_defs fun_eq_iff)

end
